theory Spec2Isabelle
  imports Main "HOL-Library.Sublist"
begin

section \<open>The voice assistant module \<^verbatim>\<open>BFSI_VA.py\<close>\<close>

text \<open>
  The module is a script: it loads two dotenv files, checks six environment variables,
  defines the \<^verbatim>\<open>Assistant\<close> class and the \<^verbatim>\<open>entrypoint\<close> coroutine and, when run
  as \<^verbatim>\<open>__main__\<close>, hands the entrypoint to the worker loop of the agent framework.

  Python strings are modelled as \<^typ>\<open>string\<close>; a character outside ASCII stands as the bytes
  of its UTF-8 encoding, the encoding of the source file. The properties below speak of
  equality, emptiness and containment of strings only, and the labels and names they
  look for are ASCII.
\<close>

subsection \<open>Values of the program\<close>

type_synonym environ = "string \<rightharpoonup> string"

datatype room = Room string

record job_context =
  room :: room

datatype vad = Silero_VAD

datatype noise_filter = BVC

record room_input_options =
  noise_cancellation :: noise_filter

record agent_session =
  stt :: string
  llm :: string
  tts :: string
  vad :: vad

record agent =
  instructions :: string

text \<open>The only function the module registers as a callback is \<^verbatim>\<open>entrypoint\<close>.\<close>

datatype callback = Entrypoint

record worker_options =
  entrypoint_fnc :: callback

subsection \<open>Effects\<close>

text \<open>
  Every call that leaves the module is recorded, in order, with its arguments:
  \<^verbatim>\<open>load_dotenv\<close>, \<^verbatim>\<open>print\<close>, and the constructors and methods of the agent framework.
\<close>

datatype call =
    Load_dotenv string
  | Print string
  | VAD_load
  | AgentSession_init agent_session
  | Agent_init string
  | BVC_init
  | RoomInputOptions_init noise_filter
  | Session_start agent_session room agent room_input_options
  | Generate_reply agent_session string
  | Run_app worker_options

datatype exn = SystemExit int | Framework_error call

record world =
  environ :: environ
  trace :: "call list"

text \<open>
  What lies outside the repository is a parameter of the model: the dotenv loader
  (it returns whether the file yielded a binding, and the new environment), whether a
  call into the agent framework raises (it may depend on the calls made so far), and the
  jobs that the worker loop hands to the registered callback.
\<close>

record externals =
  load_dotenv :: "string \<Rightarrow> environ \<Rightarrow> bool \<times> environ"
  raises :: "call list \<Rightarrow> call \<Rightarrow> bool"
  jobs :: "job_context list"

type_synonym 'a prog = "world \<Rightarrow> (exn + 'a) \<times> world"

definition return_prog :: "'a \<Rightarrow> 'a prog" where
  "return_prog x w = (Inr x, w)"

definition raise_exn :: "exn \<Rightarrow> 'a prog" where
  "raise_exn e w = (Inl e, w)"

definition bind_prog :: "'a prog \<Rightarrow> ('a \<Rightarrow> 'b prog) \<Rightarrow> 'b prog" where
  "bind_prog m f w = (case m w of (Inl e, w') \<Rightarrow> (Inl e, w') | (Inr x, w') \<Rightarrow> f x w')"

definition record_call :: "call \<Rightarrow> world \<Rightarrow> world" where
  "record_call c w = w\<lparr>trace := trace w @ [c]\<rparr>"

definition print :: "string \<Rightarrow> unit prog" where
  "print s w = (Inr (), record_call (Print s) w)"

definition call_load_dotenv :: "externals \<Rightarrow> string \<Rightarrow> bool prog" where
  "call_load_dotenv X path w =
     (case load_dotenv X path (environ w) of
        (loaded, e) \<Rightarrow> (Inr loaded, record_call (Load_dotenv path) (w\<lparr>environ := e\<rparr>)))"

definition framework_call :: "externals \<Rightarrow> call \<Rightarrow> 'a \<Rightarrow> 'a prog" where
  "framework_call X c r w =
     (if raises X (trace w) c then (Inl (Framework_error c), record_call c w)
      else (Inr r, record_call c w))"

text \<open>The calls a program adds to the trace of the world it starts in.\<close>

definition calls_of :: "'a prog \<Rightarrow> world \<Rightarrow> call list" where
  "calls_of p w = drop (length (trace w)) (trace (snd (p w)))"

subsection \<open>Environment bootstrap\<close>

text \<open>
  \<^verbatim>\<open>loaded = load_dotenv(".env.local")\<close>, then \<^verbatim>\<open>if not loaded: load_dotenv(".env")\<close>.
\<close>

definition load_config :: "externals \<Rightarrow> unit prog" where
  "load_config X =
     bind_prog (call_load_dotenv X ''.env.local'') (\<lambda>loaded.
       if \<not> loaded then bind_prog (call_load_dotenv X ''.env'') (\<lambda>_. return_prog ())
       else return_prog ())"

definition REQUIRED_ENV :: "string list" where
  "REQUIRED_ENV =
     [''LIVEKIT_URL'',
      ''LIVEKIT_API_KEY'',
      ''LIVEKIT_API_SECRET'',
      ''OPENAI_API_KEY'',
      ''CARTESIA_API_KEY'',
      ''DEEPGRAM_API_KEY'']"

definition os_getenv :: "environ \<Rightarrow> string \<Rightarrow> string option" where
  "os_getenv e k = e k"

text \<open>Python's \<^verbatim>\<open>not v\<close> for \<^verbatim>\<open>v\<close> the result of \<^verbatim>\<open>os.getenv\<close>: true of \<^verbatim>\<open>None\<close> and of \<^verbatim>\<open>""\<close>.\<close>

fun py_not :: "string option \<Rightarrow> bool" where
  "py_not None = True"
| "py_not (Some v) = (v = [])"

definition missing :: "environ \<Rightarrow> string list" where
  "missing e = filter (\<lambda>k. py_not (os_getenv e k)) REQUIRED_ENV"

text \<open>Python's \<^verbatim>\<open>sep.join(xs)\<close>.\<close>

fun str_join :: "string \<Rightarrow> string list \<Rightarrow> string" where
  "str_join sep [] = []"
| "str_join sep [x] = x"
| "str_join sep (x # y # ys) = x @ sep @ str_join sep (y # ys)"

definition missing_message :: "string \<Rightarrow> string" where
  "missing_message missing_str =
     ''Missing required environment variables: ''
     @ missing_str @ ''.\<newline>''
     @ ''Create a .env.local file in the project folder (copy from .env.local.example) ''
     @ ''and fill in your credentials, then re-run this script.''"

definition startup_validation :: "unit prog" where
  "startup_validation w =
     (let m = missing (environ w) in
      if m \<noteq> [] then
        bind_prog (print (missing_message (str_join '', '' m))) (\<lambda>_. raise_exn (SystemExit 1)) w
      else return_prog () w)"

definition startup :: "externals \<Rightarrow> unit prog" where
  "startup X = bind_prog (load_config X) (\<lambda>_. startup_validation)"

subsection \<open>Assistant definition\<close>

text \<open>
  The instruction string is one triple-quoted literal of 119 lines. It is given here line
  by line, a paragraph of the prompt (with the blank line that ends it) per definition;
  the literal is these lines joined by newlines. The punctuation outside ASCII is named
  (\<^verbatim>\<open>U+2022\<close> bullet, \<^verbatim>\<open>U+201C\<close> and \<^verbatim>\<open>U+201D\<close> double quotes, \<^verbatim>\<open>U+2018\<close> and
  \<^verbatim>\<open>U+2019\<close> single quotes, \<^verbatim>\<open>U+2014\<close> and \<^verbatim>\<open>U+2013\<close> dashes, \<^verbatim>\<open>U+2192\<close> arrow,
  \<^verbatim>\<open>U+20B9\<close> rupee sign); the Devanagari of the language example stands as its bytes.
\<close>

abbreviation bullet :: string where
  "bullet \<equiv> [CHR 0xE2, CHR 0x80, CHR 0xA2]"

abbreviation ldquo :: string where
  "ldquo \<equiv> [CHR 0xE2, CHR 0x80, CHR 0x9C]"

abbreviation lsquo :: string where
  "lsquo \<equiv> [CHR 0xE2, CHR 0x80, CHR 0x98]"

abbreviation mdash :: string where
  "mdash \<equiv> [CHR 0xE2, CHR 0x80, CHR 0x94]"

abbreviation ndash :: string where
  "ndash \<equiv> [CHR 0xE2, CHR 0x80, CHR 0x93]"

abbreviation rarr :: string where
  "rarr \<equiv> [CHR 0xE2, CHR 0x86, CHR 0x92]"

abbreviation rdquo :: string where
  "rdquo \<equiv> [CHR 0xE2, CHR 0x80, CHR 0x9D]"

abbreviation rsquo :: string where
  "rsquo \<equiv> [CHR 0xE2, CHR 0x80, CHR 0x99]"

abbreviation rupee :: string where
  "rupee \<equiv> [CHR 0xE2, CHR 0x82, CHR 0xB9]"

definition prompt_role :: "string list" where
  "prompt_role =
     [''You are the AI Voice & Chat Assistant for a Payment Aggregator platform.'',
      ''Purpose: reduce onboarding drop-offs, answer merchant support queries, provide ''
        @ ''real-time transaction, settlement, refund, chargeback, and dispute information, gather ''
        @ ''feedback, and escalate unresolved or sensitive issues.'',
      ''Audience: merchants integrating or operating on <COMPANY_NAME> and their end customers ''
        @ ''asking status questions. Internal support teams consume your structured conversation ''
        @ ''summaries.'',
      ''Channels: voice calls (inbound/outbound), web chat widget, WhatsApp. Maintain ''
        @ ''consistency across channels.'',
      '''']"

definition prompt_tone :: "string list" where
  "prompt_tone =
     [''Tone & Style:'',
      ''- Professional, concise, empathetic, fintech-specific.'',
      ''- No emojis, decorative symbols, excessive punctuation.'',
      ''- Default to English; if user speaks Hindi, Tamil, Telugu, Bengali, Marathi (or mixes), ''
        @ ''respond first in that language, optionally append an English clarification if ''
        @ ''complexity warrants.'',
      ''- Always be clear about next steps. Avoid jargon without brief explanation.'',
      '''']"

definition prompt_rules :: "string list" where
  "prompt_rules =
     [''General Behavioral Rules:'',
      ''1. Authenticate context when needed: ask for Merchant ID / registered phone / email if ''
        @ ''querying account-specific data (unless provided in metadata).'',
      ''2. Never invent data. If a data point (KYC status, settlement date, refund status, ''
        @ ''chargeback reason) is unavailable from system tools, say it is not currently available ''
        @ ''and offer escalation.'',
      ''3. Be proactive: if merchant indicates delay, suggest probable causes (KYC pending, ''
        @ ''bank holiday, threshold not met) before escalation.'',
      ''4. Keep answers under ~35 spoken words unless giving step-by-step technical guidance.'',
      ''5. Offer to send links when referencing dashboard locations: KYC upload, API docs, ''
        @ ''webhook testing, dispute evidence upload.'',
      ''6. Escalate politely for: repeated failures, site/link errors, missing verification ''
        @ ''beyond SLA, chargeback appeal requests, negative sentiment + unresolved issue.'',
      ''7. Capture feedback (1'' @ ndash @ ''5 rating) after resolving or attempting resolution.'',
      '''']"

definition prompt_use_cases :: "string list" where
  "prompt_use_cases =
     [''Core Use Cases (must handle smoothly):'',
      ''- KYC follow-up: status check, required documents, rejection reason, upload guidance, ''
        @ ''reminder scheduling.'',
      ''- Integration assistance: API keys, environment mismatch, webhook troubleshooting, ''
        @ ''plugin/framework guidance.'',
      ''- Settlement queries: last settlement, next expected date, delays with reasons.'',
      ''- Refund queries: status, timeline, initiation process.'',
      ''- Chargeback & disputes: definition, status, reason, evidence upload guidance, deadline ''
        @ ''reminders.'',
      ''- Dispute follow-up: proactive reminder before evidence deadline.'',
      ''- Merchant feedback collection post resolution or settlement completion.'',
      '''']"

definition prompt_patterns :: "string list" where
  "prompt_patterns =
     [''Structured Response Patterns (adapt dynamically):'',
      ''KYC Status: '' @ ldquo @ ''Your KYC is <status>. Usual review time is 24'' @ ndash
        @ ''48 hours. Would you like the document list again?'' @ rdquo,
      ''Documents Needed: '' @ ldquo
        @ ''You need PAN, business proof (GST or registration), and bank proof (cancelled cheque or ''
        @ ''recent statement).'' @ rdquo,
      ''Upload Help: '' @ ldquo @ ''Use your dashboard '' @ rarr @ '' Settings '' @ rarr
        @ '' KYC Verification. I can resend a secure link. Files under 2MB in PDF/JPG/PNG.'' @ rdquo,
      ''Integration API Keys: '' @ ldquo @ ''Generate keys in Developer Dashboard '' @ rarr
        @ '' Settings '' @ rarr @ '' API Keys. Sandbox and live keys differ'' @ mdash
        @ ''confirm environment.'' @ rdquo,
      ''Webhook Failure: '' @ ldquo
        @ ''Ensure the URL returns HTTP 200 and is publicly reachable. You can trigger test events ''
        @ ''from Dashboard '' @ rarr @ '' Webhooks.'' @ rdquo,
      ''Settlement Status: '' @ ldquo
        @ ''Your last settlement of <AMOUNT> was credited on <DATE>. Next is scheduled for <DATE>. ''
        @ ''Need a detailed report?'' @ rdquo,
      ''Refund Status: '' @ ldquo
        @ ''Refund for transaction <TXN_ID> was initiated on <DATE>. Expected credit in 5'' @ ndash
        @ ''7 working days.'' @ rdquo,
      ''Chargeback Status: '' @ ldquo @ ''Chargeback for <TXN_ID> amount <AMOUNT> reason '' @ lsquo
        @ ''<REASON>'' @ rsquo @ ''. Please upload evidence by <DEADLINE>.'' @ rdquo,
      ''Delay Apology: '' @ ldquo
        @ ''Sorry for the delay. Possible causes: pending KYC, bank holiday, or review hold. I can ''
        @ ''escalate now if you wish.'' @ rdquo,
      ''Escalation Offer: '' @ ldquo
        @ ''I will escalate this to our <TEAM>. Please confirm preferred contact time.'' @ rdquo,
      ''Feedback Prompt: '' @ ldquo @ ''Was your issue resolved today? Please rate 1'' @ ndash @ ''5.''
        @ rdquo,
      '''']"

definition prompt_logging :: "string list" where
  "prompt_logging =
     [''Data Logging (instruction to internal system; do not read aloud unless asked):'',
      ''- merchant_id'',
      ''- pre_status (e.g., kyc_pending, dispute_open)'',
      ''- issue_category (kyc_docs_missing, integration_error, settlement_delay, refund_status, ''
        @ ''chargeback_info, dispute_deadline, feedback)'',
      ''- sentiment (positive, neutral, negative)'',
      ''- outcome (completed, deferred, escalated)'',
      ''- escalation_target (onboarding, finance, risk, tech_support)'',
      ''- follow_up_required (yes/no)'',
      ''If unavailable, mark fields as null rather than guessing.'',
      '''']"

definition prompt_escalation :: "string list" where
  "prompt_escalation =
     [''Decision & Escalation Logic (implicit):'',
      ''- KYC pending >48h after correct upload '' @ rarr @ '' flag onboarding escalation.'',
      ''- Settlement delay beyond expected cycle + no bank holiday reason '' @ rarr
        @ '' escalate finance.'',
      ''- Chargeback approaching deadline (<24h) '' @ rarr @ '' send reminder with evidence link.'',
      ''- Repeated integration auth error after guidance '' @ rarr @ '' create tech_support ticket.'',
      ''- Negative sentiment + unresolved status query '' @ rarr @ '' escalate tier 2.'',
      ''Always confirm escalation action and summarize what was escalated.'',
      '''']"

definition prompt_language :: "string list" where
  "prompt_language =
     [''Language Handling:'',
      ''If user message entirely in Hindi (or another supported language), respond primarily in ''
        @ ''that language (example Hindi: '' @ ldquo
        @ [CHR 0xE0, CHR 0xA4, CHR 0x86, CHR 0xE0, CHR 0xA4, CHR 0xAA, CHR 0xE0, CHR 0xA4, CHR 0x95]
        @ [CHR 0xE0, CHR 0xA4, CHR 0xBE] @ '' KYC ''
        @ [CHR 0xE0, CHR 0xA4, CHR 0x85, CHR 0xE0, CHR 0xA4, CHR 0xAD, CHR 0xE0, CHR 0xA5, CHR 0x80] @ '' ''
        @ [CHR 0xE0, CHR 0xA4, CHR 0xAA, CHR 0xE0, CHR 0xA5, CHR 0x87, CHR 0xE0, CHR 0xA4, CHR 0x82]
        @ [CHR 0xE0, CHR 0xA4, CHR 0xA1, CHR 0xE0, CHR 0xA4, CHR 0xBF, CHR 0xE0, CHR 0xA4, CHR 0x82]
        @ [CHR 0xE0, CHR 0xA4, CHR 0x97] @ '' ''
        @ [CHR 0xE0, CHR 0xA4, CHR 0xB9, CHR 0xE0, CHR 0xA5, CHR 0x88] @ '', ''
        @ [CHR 0xE0, CHR 0xA4, CHR 0xB8, CHR 0xE0, CHR 0xA4, CHR 0xBE, CHR 0xE0, CHR 0xA4, CHR 0xAE]
        @ [CHR 0xE0, CHR 0xA4, CHR 0xBE, CHR 0xE0, CHR 0xA4, CHR 0xA8, CHR 0xE0, CHR 0xA5, CHR 0x8D]
        @ [CHR 0xE0, CHR 0xA4, CHR 0xAF, CHR 0xE0, CHR 0xA4, CHR 0xA4, CHR 0xE0, CHR 0xA4, CHR 0x83]
        @ '' 24'' @ ndash @ ''48 ''
        @ [CHR 0xE0, CHR 0xA4, CHR 0x98, CHR 0xE0, CHR 0xA4, CHR 0x82, CHR 0xE0, CHR 0xA4, CHR 0x9F]
        @ [CHR 0xE0, CHR 0xA5, CHR 0x87] @ '' ''
        @ [CHR 0xE0, CHR 0xA4, CHR 0xB2, CHR 0xE0, CHR 0xA4, CHR 0x97, CHR 0xE0, CHR 0xA4, CHR 0xA4]
        @ [CHR 0xE0, CHR 0xA5, CHR 0x87] @ '' ''
        @ [CHR 0xE0, CHR 0xA4, CHR 0xB9, CHR 0xE0, CHR 0xA5, CHR 0x88, CHR 0xE0, CHR 0xA4, CHR 0x82]
        @ [CHR 0xE0, CHR 0xA5, CHR 0xA4] @ '' ''
        @ [CHR 0xE0, CHR 0xA4, CHR 0x95, CHR 0xE0, CHR 0xA5, CHR 0x8D, CHR 0xE0, CHR 0xA4, CHR 0xAF]
        @ [CHR 0xE0, CHR 0xA4, CHR 0xBE] @ '' ''
        @ [CHR 0xE0, CHR 0xA4, CHR 0xAE, CHR 0xE0, CHR 0xA5, CHR 0x88, CHR 0xE0, CHR 0xA4, CHR 0x82] @ '' ''
        @ [CHR 0xE0, CHR 0xA4, CHR 0xA1, CHR 0xE0, CHR 0xA5, CHR 0x89, CHR 0xE0, CHR 0xA4, CHR 0x95]
        @ [CHR 0xE0, CHR 0xA5, CHR 0x8D, CHR 0xE0, CHR 0xA4, CHR 0xAF, CHR 0xE0, CHR 0xA5, CHR 0x82]
        @ [CHR 0xE0, CHR 0xA4, CHR 0xAE, CHR 0xE0, CHR 0xA5, CHR 0x87, CHR 0xE0, CHR 0xA4, CHR 0x82]
        @ [CHR 0xE0, CHR 0xA4, CHR 0x9F] @ '' ''
        @ [CHR 0xE0, CHR 0xA4, CHR 0xB8, CHR 0xE0, CHR 0xA5, CHR 0x82, CHR 0xE0, CHR 0xA4, CHR 0x9A]
        @ [CHR 0xE0, CHR 0xA5, CHR 0x80] @ '' ''
        @ [CHR 0xE0, CHR 0xA4, CHR 0xAB, CHR 0xE0, CHR 0xA4, CHR 0xBF, CHR 0xE0, CHR 0xA4, CHR 0xB0] @ '' ''
        @ [CHR 0xE0, CHR 0xA4, CHR 0xB8, CHR 0xE0, CHR 0xA5, CHR 0x87] @ '' ''
        @ [CHR 0xE0, CHR 0xA4, CHR 0xAD, CHR 0xE0, CHR 0xA5, CHR 0x87, CHR 0xE0, CHR 0xA4, CHR 0x9C] @ '' ''
        @ [CHR 0xE0, CHR 0xA4, CHR 0xA6, CHR 0xE0, CHR 0xA5, CHR 0x82, CHR 0xE0, CHR 0xA4, CHR 0x81] @ ''?''
        @ rdquo @ ''). Keep bilingual only if clarifying technical instructions.'',
      '''']"

definition prompt_clarification :: "string list" where
  "prompt_clarification =
     [''Clarification Strategy:'',
      ''If query ambiguous (e.g., '' @ ldquo @ ''It'' @ rsquo @ ''s pending'' @ rdquo
        @ ''), ask a focused clarification: '' @ ldquo
        @ ''Do you mean your KYC, settlement, or refund is pending?'' @ rdquo @ '' before proceeding.'',
      '''']"

definition prompt_safety :: "string list" where
  "prompt_safety =
     [''Safety & Compliance:'',
      ''- Emphasize RBI compliance for KYC when asked why documents required.'',
      ''- Do not ask for or store sensitive personal data beyond required merchant verification ''
        @ ''fields.'',
      ''- If user requests insecure submission (email / chat file for sensitive docs), redirect ''
        @ ''to secure upload.'',
      '''']"

definition prompt_sentiment :: "string list" where
  "prompt_sentiment =
     [''Negative Sentiment Handling:'',
      ''Acknowledge + provide concrete action: '' @ ldquo @ ''I understand the frustration. I'' @ rsquo
        @ ''m tagging this for priority review and will escalate.'' @ rdquo,
      '''']"

definition prompt_closing :: "string list" where
  "prompt_closing =
     [''Closing Patterns:'',
      ''Resolution: '' @ ldquo @ ''Glad I could help. You'' @ rsquo @ ''ll receive confirmation shortly.''
        @ rdquo,
      ''Partial: '' @ ldquo @ ''Some steps remain. I'' @ rsquo
        @ ''ve scheduled follow-up and escalated for review.'' @ rdquo,
      ''Unresolved: '' @ ldquo @ ''Escalated now. Expect a response within business SLA.'' @ rdquo,
      '''']"

definition prompt_do_not :: "string list" where
  "prompt_do_not =
     [''Do not:'',
      ''- Hallucinate transaction IDs, amounts, or dates.'',
      ''- Provide legal advice.'',
      ''- Promise exact settlement times if data not fetched.'',
      ''- Use emojis or decorative symbols.'',
      '''']"

definition prompt_demo :: "string list" where
  "prompt_demo =
     [''Demo Mode / Dummy Data (for demos when live data isn'' @ rsquo @ ''t available):'',
      ''- Use these consistent sample values only when system integrations do not return data. ''
        @ ''Do not invent beyond these. Prefer clearly labeling as '' @ ldquo @ ''Sample'' @ rdquo
        @ '' unless the user indicates this is a demo.'',
      ''- Merchant profile:'',
      ''    '' @ bullet @ '' merchant_name: '' @ ldquo @ ''Acme Retail Pvt Ltd'' @ rdquo,
      ''    '' @ bullet @ '' merchant_id: '' @ ldquo @ ''MCH-000123'' @ rdquo,
      ''    '' @ bullet @ '' registered_phone: '' @ ldquo @ ''+91-9876543210'' @ rdquo,
      ''    '' @ bullet @ '' registered_email: '' @ ldquo @ ''owner@acme.example'' @ rdquo,
      ''- Settlements:'',
      ''    '' @ bullet @ '' last_settlement_amount: '' @ ldquo @ rupee @ ''1,24,560'' @ rdquo @ '' on ''
        @ ldquo @ ''27 Oct 2025'' @ rdquo,
      ''    '' @ bullet @ '' next_settlement_date: '' @ ldquo @ ''29 Oct 2025'' @ rdquo,
      ''- Refunds:'',
      ''    '' @ bullet @ '' refund_txn_id: '' @ ldquo @ ''TXN78412'' @ rdquo @ '' amount '' @ ldquo
        @ rupee @ ''1,200'' @ rdquo @ '' initiated '' @ ldquo @ ''26 Oct 2025'' @ rdquo @ '', ETA '' @ ldquo
        @ ''5'' @ ndash @ ''7 working days'' @ rdquo,
      ''- Chargebacks:'',
      ''    '' @ bullet @ '' chargeback_txn_id: '' @ ldquo @ ''TXN98123'' @ rdquo @ '' amount '' @ ldquo
        @ rupee @ ''5,400'' @ rdquo @ '' reason '' @ ldquo @ ''Product not delivered'' @ rdquo
        @ '', evidence_deadline '' @ ldquo @ ''1 Nov 2025'' @ rdquo,
      ''- KYC:'',
      ''    '' @ bullet @ '' kyc_status: '' @ ldquo @ ''under review'' @ rdquo @ '' (typical 24'' @ ndash
        @ ''48 hours)'',
      ''    '' @ bullet
        @ '' required_docs: PAN, business proof (GST/registration), bank proof (cancelled ''
        @ ''cheque/recent statement)'',
      ''- Integration:'',
      ''    '' @ bullet @ '' api_keys_location: '' @ ldquo @ ''Developer Dashboard '' @ rarr
        @ '' Settings '' @ rarr @ '' API Keys'' @ rdquo,
      ''    '' @ bullet @ '' webhook_note: '' @ ldquo
        @ ''Ensure 200 OK and public reachability; test via Dashboard '' @ rarr @ '' Webhooks'' @ rdquo,
      ''- Usage hints:'',
      ''    '' @ bullet @ '' When asked '' @ ldquo @ ''What'' @ rsquo @ ''s my status?'' @ rdquo
        @ '' and live data is unavailable, respond: '' @ ldquo @ ''Sample data for demo '' @ mdash
        @ '' Your last settlement of '' @ rupee
        @ ''1,24,560 was credited on 27 Oct 2025. The next is scheduled for 29 Oct 2025. Shall I ''
        @ ''show how to find this in your dashboard?'' @ rdquo,
      ''    '' @ bullet @ '' When asked for a specific transaction and none is found, say: '' @ ldquo
        @ ''I don'' @ rsquo @ ''t have live data. Here'' @ rsquo
        @ ''s a sample flow using TXN78412 to show the steps. Would you like me to proceed?'' @ rdquo,
      '''']"

definition prompt_unavailable :: "string list" where
  "prompt_unavailable =
     [''If requested data not accessible:'',
      ldquo @ ''Currently I cannot retrieve that information. I can escalate or you may check your ''
        @ ''dashboard reports. Which do you prefer?'' @ rdquo,
      '''']"

definition prompt_greeting :: "string list" where
  "prompt_greeting =
     [''Initial Greeting (inbound voice):'',
      ldquo @ ''Hi, you'' @ rsquo
        @ ''ve reached the support assistant for <COMPANY_NAME>. How can I help you today?'' @ rdquo,
      '''']"

definition prompt_reminder :: "string list" where
  "prompt_reminder =
     [''Outbound KYC Reminder:'',
      ldquo @ ''Hi, we noticed your KYC is still pending. Would you like help completing it now?'' @ rdquo,
      '''']"

definition prompt_final :: "string list" where
  "prompt_final =
     [''Maintain consistency, accuracy, brevity, empathy. Begin now and greet the user ''
        @ ''appropriately.'']"

definition instruction_lines :: "string list" where
  "instruction_lines =
     prompt_role @ prompt_tone @ prompt_rules @ prompt_use_cases
     @ prompt_patterns @ prompt_logging @ prompt_escalation @ prompt_language
     @ prompt_clarification @ prompt_safety @ prompt_sentiment @ prompt_closing
     @ prompt_do_not @ prompt_demo @ prompt_unavailable @ prompt_greeting
     @ prompt_reminder @ prompt_final"

definition Assistant_instructions :: string where
  "Assistant_instructions = str_join ''\<newline>'' instruction_lines"

text \<open>
  \<^verbatim>\<open>Assistant()\<close> runs \<^verbatim>\<open>super().__init__(instructions=...)\<close>, a call into the framework,
  and yields an agent that carries the string.
\<close>

definition Assistant_init :: "externals \<Rightarrow> agent prog" where
  "Assistant_init X =
     framework_call X (Agent_init Assistant_instructions) \<lparr>instructions = Assistant_instructions\<rparr>"

subsection \<open>Session entrypoint\<close>

text \<open>
  Python evaluates the arguments of a call from left to right before the call:
  \<^verbatim>\<open>silero.VAD.load()\<close> before \<^verbatim>\<open>AgentSession(...)\<close>, and \<^verbatim>\<open>ctx.room\<close>, \<^verbatim>\<open>Assistant()\<close>,
  \<^verbatim>\<open>noise_cancellation.BVC()\<close> and \<^verbatim>\<open>RoomInputOptions(...)\<close> before \<^verbatim>\<open>session.start(...)\<close>.
  The entrypoint catches nothing: a framework call that raises ends it there.
\<close>

definition greeting :: string where
  "greeting = ''Hi u have Reached the suppoRt of bfsi how may i help u today .''"

definition entrypoint :: "externals \<Rightarrow> job_context \<Rightarrow> unit prog" where
  "entrypoint X ctx =
     bind_prog (framework_call X VAD_load Silero_VAD) (\<lambda>v.
     bind_prog (let s = \<lparr>stt = ''deepgram/nova-2-general:en'',
                         llm = ''openai/gpt-4.1-mini'',
                         tts = ''cartesia/sonic-3:9626c31c-bec5-4cca-baa8-f8ba9e84c8bc'',
                         vad = v\<rparr>
                in framework_call X (AgentSession_init s) s) (\<lambda>session.
     bind_prog (Assistant_init X) (\<lambda>a.
     bind_prog (framework_call X BVC_init BVC) (\<lambda>nc.
     bind_prog (framework_call X (RoomInputOptions_init nc) \<lparr>noise_cancellation = nc\<rparr>) (\<lambda>opts.
     bind_prog (framework_call X (Session_start session (room ctx) a opts) ()) (\<lambda>_.
     framework_call X (Generate_reply session greeting) ()))))))"

subsection \<open>Process entry\<close>

fun run_callback :: "externals \<Rightarrow> callback \<Rightarrow> job_context \<Rightarrow> unit prog" where
  "run_callback X Entrypoint ctx = entrypoint X ctx"

text \<open>
  The worker loop belongs to the framework. It is modelled by what it does with the
  callback: it runs it once for each job, and a job whose callback raises ends alone,
  the fault staying with the framework.
\<close>

fun dispatch :: "externals \<Rightarrow> callback \<Rightarrow> job_context list \<Rightarrow> unit prog" where
  "dispatch X cb [] w = (Inr (), w)"
| "dispatch X cb (j # js) w = dispatch X cb js (snd (run_callback X cb j w))"

definition run_app :: "externals \<Rightarrow> worker_options \<Rightarrow> unit prog" where
  "run_app X opts w = dispatch X (entrypoint_fnc opts) (jobs X) (record_call (Run_app opts) w)"

text \<open>
  The module from its first statement to its last; \<open>is_main\<close> says whether
  \<^verbatim>\<open>__name__ == "__main__"\<close>. The \<^verbatim>\<open>class\<close> and \<^verbatim>\<open>def\<close> statements between the
  validation and the last statement bind names and call nothing.
\<close>

definition module_body :: "externals \<Rightarrow> bool \<Rightarrow> unit prog" where
  "module_body X is_main =
     bind_prog (startup X) (\<lambda>_.
       if is_main then run_app X \<lparr>entrypoint_fnc = Entrypoint\<rparr> else return_prog ())"

subsection \<open>Observing a run\<close>

text \<open>What a run wrote to standard output: the arguments of its \<^verbatim>\<open>print\<close> calls.\<close>

fun printed_text :: "call \<Rightarrow> string option" where
  "printed_text (Print s) = Some s"
| "printed_text _ = None"

definition stdout :: "call list \<Rightarrow> string list" where
  "stdout cs = List.map_filter printed_text cs"

text \<open>The calls that go to the agent framework, as opposed to the dotenv loader and \<^verbatim>\<open>print\<close>.\<close>

fun framework_op :: "call \<Rightarrow> bool" where
  "framework_op (Load_dotenv p) = False"
| "framework_op (Print s) = False"
| "framework_op _ = True"

text \<open>
  The three calls that make a session: the construction of the pipeline, the start of the
  session and the request for a reply.
\<close>

fun pipeline_call :: "call \<Rightarrow> bool" where
  "pipeline_call (AgentSession_init s) = True"
| "pipeline_call (Session_start s r a opts) = True"
| "pipeline_call (Generate_reply s g) = True"
| "pipeline_call _ = False"

text \<open>
  The instruction string a call hands to the agent, and the text a call hands to the reply
  request.
\<close>

fun instructions_passed :: "call \<Rightarrow> string option" where
  "instructions_passed (Agent_init s) = Some s"
| "instructions_passed _ = None"

fun greeting_passed :: "call \<Rightarrow> string option" where
  "greeting_passed (Generate_reply s g) = Some g"
| "greeting_passed _ = None"

text \<open>
  The calls written in the body of \<^verbatim>\<open>entrypoint\<close>, from top to bottom, with the
  \<^verbatim>\<open>AgentSession\<close> they pass around. A run of the entrypoint makes an initial segment of
  them (lemma \<open>calls_of_entrypoint\<close> below).
\<close>

definition the_session :: agent_session where
  "the_session = \<lparr>stt = ''deepgram/nova-2-general:en'', llm = ''openai/gpt-4.1-mini'',
      tts = ''cartesia/sonic-3:9626c31c-bec5-4cca-baa8-f8ba9e84c8bc'', vad = Silero_VAD\<rparr>"

definition entrypoint_script :: "job_context \<Rightarrow> call list" where
  "entrypoint_script ctx =
     [VAD_load,
      AgentSession_init the_session,
      Agent_init Assistant_instructions,
      BVC_init,
      RoomInputOptions_init BVC,
      Session_start the_session (room ctx) \<lparr>instructions = Assistant_instructions\<rparr>
        \<lparr>noise_cancellation = BVC\<rparr>,
      Generate_reply the_session greeting]"

subsection \<open>Surroundings for concrete runs\<close>

text \<open>
  \<^verbatim>\<open>load_dotenv\<close> comes from the python-dotenv library, so the model takes the loader as a
  parameter. For runs on concrete inputs this loader behaves in the manner of the library
  with its default arguments: a file is given by the bindings it holds; a file that is
  absent, or holds no binding, yields \<^verbatim>\<open>False\<close>; a later binding of a name in the file wins
  over an earlier one; a variable that is already in the environment keeps its value.
\<close>

definition dotenv_loader :: "(string \<rightharpoonup> (string \<times> string) list) \<Rightarrow> string \<Rightarrow> environ \<Rightarrow> bool \<times> environ" where
  "dotenv_loader files path e =
     (case files path of
        None \<Rightarrow> (False, e)
      | Some kvs \<Rightarrow> (kvs \<noteq> [], map_of (rev kvs) ++ e))"

text \<open>A framework in which no call raises, with one job for the worker.\<close>

definition sample_externals :: "(string \<rightharpoonup> (string \<times> string) list) \<Rightarrow> externals" where
  "sample_externals files =
     \<lparr>load_dotenv = dotenv_loader files, raises = (\<lambda>t c. False),
      jobs = [\<lparr>room = Room ''support-line''\<rparr>]\<rparr>"

definition sample_credentials :: "(string \<times> string) list" where
  "sample_credentials =
     [(''LIVEKIT_URL'', ''wss://bfsi.livekit.cloud''),
      (''LIVEKIT_API_KEY'', ''lk-key''),
      (''LIVEKIT_API_SECRET'', ''lk-secret''),
      (''OPENAI_API_KEY'', ''sk-openai''),
      (''CARTESIA_API_KEY'', ''sk-cartesia''),
      (''DEEPGRAM_API_KEY'', ''dg-key'')]"

definition sample_world :: "(string \<times> string) list \<Rightarrow> world" where
  "sample_world kvs = \<lparr>environ = map_of kvs, trace = []\<rparr>"

section \<open>Properties\<close>

subsection \<open>Loading and validation, step by step\<close>

lemma load_config_returns: "fst (load_config X w) = Inr ()"
  by (simp add: load_config_def bind_prog_def call_load_dotenv_def return_prog_def
      split: prod.splits)

lemma load_config_trace:
  "trace (snd (load_config X w)) =
     trace w @ (if fst (load_dotenv X ''.env.local'' (environ w))
                then [Load_dotenv ''.env.local'']
                else [Load_dotenv ''.env.local'', Load_dotenv ''.env''])"
  by (simp add: load_config_def bind_prog_def call_load_dotenv_def return_prog_def
      record_call_def split: prod.splits)

lemma load_config_environ:
  "environ (snd (load_config X w)) =
     (if fst (load_dotenv X ''.env.local'' (environ w))
      then snd (load_dotenv X ''.env.local'' (environ w))
      else snd (load_dotenv X ''.env'' (snd (load_dotenv X ''.env.local'' (environ w)))))"
  by (simp add: load_config_def bind_prog_def call_load_dotenv_def return_prog_def
      record_call_def split: prod.splits)

lemma calls_of_load_config:
  "calls_of (load_config X) w =
     (if fst (load_dotenv X ''.env.local'' (environ w))
      then [Load_dotenv ''.env.local'']
      else [Load_dotenv ''.env.local'', Load_dotenv ''.env''])"
  by (simp add: calls_of_def load_config_trace)

lemma startup_exit:
  assumes "missing (environ (snd (load_config X w))) \<noteq> []"
  shows "startup X w =
     (Inl (SystemExit 1),
      record_call (Print (missing_message (str_join '', '' (missing (environ (snd (load_config X w)))))))
        (snd (load_config X w)))"
proof -
  obtain w1 where l: "load_config X w = (Inr (), w1)"
    using load_config_returns [of X w] by (cases "load_config X w") auto
  with assms show ?thesis
    by (simp add: startup_def bind_prog_def startup_validation_def print_def raise_exn_def)
qed

lemma startup_proceeds:
  assumes "missing (environ (snd (load_config X w))) = []"
  shows "startup X w = (Inr (), snd (load_config X w))"
proof -
  obtain w1 where l: "load_config X w = (Inr (), w1)"
    using load_config_returns [of X w] by (cases "load_config X w") auto
  with assms show ?thesis
    by (simp add: startup_def bind_prog_def startup_validation_def return_prog_def)
qed

lemma module_body_exit:
  assumes "missing (environ (snd (load_config X w))) \<noteq> []"
  shows "module_body X m w =
     (Inl (SystemExit 1),
      record_call (Print (missing_message (str_join '', '' (missing (environ (snd (load_config X w)))))))
        (snd (load_config X w)))"
  by (simp add: module_body_def bind_prog_def startup_exit [OF assms])

lemma module_body_proceeds:
  assumes "missing (environ (snd (load_config X w))) = []"
  shows "module_body X m w =
     (if m then run_app X \<lparr>entrypoint_fnc = Entrypoint\<rparr> (snd (load_config X w))
      else (Inr (), snd (load_config X w)))"
  by (simp add: module_body_def bind_prog_def startup_proceeds [OF assms] return_prog_def)

lemma calls_of_module_exit:
  assumes "missing (environ (snd (load_config X w))) \<noteq> []"
  shows "calls_of (module_body X m) w =
     calls_of (load_config X) w
     @ [Print (missing_message (str_join '', '' (missing (environ (snd (load_config X w))))))]"
  by (simp add: calls_of_def module_body_exit [OF assms] record_call_def load_config_trace)

lemma calls_of_startup_proceeds:
  assumes "missing (environ (snd (load_config X w))) = []"
  shows "calls_of (startup X) w = calls_of (load_config X) w"
  by (simp add: calls_of_def startup_proceeds [OF assms])

lemma py_not_iff: "py_not v \<longleftrightarrow> v = None \<or> v = Some []"
  by (cases v) auto

lemma missing_filter:
  "missing e = filter (\<lambda>k. k \<in> set (missing e)) REQUIRED_ENV"
  by (simp add: missing_def cong: filter_cong)

lemma missing_empty_iff:
  "missing e = [] \<longleftrightarrow> (\<forall>k \<in> set REQUIRED_ENV. \<exists>v. e k = Some v \<and> v \<noteq> [])"
  by (auto simp: missing_def os_getenv_def filter_empty_conv py_not_iff)

lemma stdout_append [simp]: "stdout (xs @ ys) = stdout xs @ stdout ys"
  by (simp add: stdout_def List.map_filter_def)

lemma stdout_load_config [simp]: "stdout (calls_of (load_config X) w) = []"
  by (simp add: calls_of_load_config stdout_def)

lemma stdout_plain: "\<forall>c \<in> set cs. printed_text c = None \<Longrightarrow> stdout cs = []"
  by (induction cs) (auto simp: stdout_def)

lemma framework_op_load_config: "c \<in> set (calls_of (load_config X) w) \<Longrightarrow> \<not> framework_op c"
  by (auto simp: calls_of_load_config split: if_splits)

subsection \<open>The calls of the entrypoint and of the worker\<close>

lemma entrypoint_trace:
  "\<exists>n. trace (snd (entrypoint X ctx w)) = trace w @ take n (entrypoint_script ctx)"
proof -
  let ?s = "entrypoint_script ctx"
  have "trace (snd (entrypoint X ctx w)) \<in> (\<lambda>n. trace w @ take n ?s) ` {1, 2, 3, 4, 5, 6, 7}"
    by (simp add: entrypoint_def bind_prog_def framework_call_def Assistant_init_def
        record_call_def Let_def entrypoint_script_def the_session_def)
  then show ?thesis by blast
qed

lemma entrypoint_no_raise:
  assumes "\<And>t c. \<not> raises X t c"
  shows "entrypoint X ctx w = (Inr (), w\<lparr>trace := trace w @ entrypoint_script ctx\<rparr>)"
  by (simp add: entrypoint_def bind_prog_def framework_call_def Assistant_init_def
        record_call_def Let_def entrypoint_script_def the_session_def assms)

lemma calls_of_entrypoint: "prefix (calls_of (entrypoint X ctx) w) (entrypoint_script ctx)"
proof -
  obtain n where "trace (snd (entrypoint X ctx w)) = trace w @ take n (entrypoint_script ctx)"
    using entrypoint_trace by blast
  then show ?thesis by (simp add: calls_of_def take_is_prefix)
qed

lemma calls_of_entrypoint_subset:
  "set (calls_of (entrypoint X ctx) w) \<subseteq> set (entrypoint_script ctx)"
  using calls_of_entrypoint [of X ctx w] by (rule set_mono_prefix)

lemma agent_init_in_script:
  "Agent_init s \<in> set (entrypoint_script ctx) \<Longrightarrow> s = Assistant_instructions"
  by (simp add: entrypoint_script_def)

lemma generate_reply_in_script:
  "Generate_reply ses g \<in> set (entrypoint_script ctx) \<Longrightarrow> g = greeting"
  by (simp add: entrypoint_script_def)

lemma entrypoint_script_plain:
  "c \<in> set (entrypoint_script j) \<Longrightarrow> printed_text c = None \<and> c \<noteq> Load_dotenv p"
  by (auto simp: entrypoint_script_def)

lemma dispatch_trace:
  "\<exists>cs. trace (snd (dispatch X Entrypoint js w)) = trace w @ cs
      \<and> set cs \<subseteq> (\<Union>j \<in> set js. set (entrypoint_script j))"
proof (induction js arbitrary: w)
  case Nil
  then show ?case by simp
next
  case (Cons j js)
  obtain n where n: "trace (snd (entrypoint X j w)) = trace w @ take n (entrypoint_script j)"
    using entrypoint_trace by blast
  obtain cs where cs: "trace (snd (dispatch X Entrypoint js (snd (entrypoint X j w))))
       = trace (snd (entrypoint X j w)) @ cs" "set cs \<subseteq> (\<Union>j \<in> set js. set (entrypoint_script j))"
    using Cons.IH by blast
  have "set (take n (entrypoint_script j)) \<subseteq> set (entrypoint_script j)"
    by (rule set_take_subset)
  with n cs show ?case
    by (intro exI [of _ "take n (entrypoint_script j) @ cs"]) auto
qed

lemma run_app_trace:
  "\<exists>cs. trace (snd (run_app X \<lparr>entrypoint_fnc = Entrypoint\<rparr> w))
         = trace w @ Run_app \<lparr>entrypoint_fnc = Entrypoint\<rparr> # cs
      \<and> set cs \<subseteq> (\<Union>j \<in> set (jobs X). set (entrypoint_script j))"
proof -
  let ?w = "record_call (Run_app \<lparr>entrypoint_fnc = Entrypoint\<rparr>) w"
  obtain cs where "trace (snd (dispatch X Entrypoint (jobs X) ?w)) = trace ?w @ cs"
    "set cs \<subseteq> (\<Union>j \<in> set (jobs X). set (entrypoint_script j))"
    using dispatch_trace by blast
  then show ?thesis by (simp add: run_app_def record_call_def)
qed

lemma calls_of_module_main:
  assumes "missing (environ (snd (load_config X w))) = []"
  shows "\<exists>cs. calls_of (module_body X True) w
           = calls_of (load_config X) w @ Run_app \<lparr>entrypoint_fnc = Entrypoint\<rparr> # cs
         \<and> (\<forall>c \<in> set cs. printed_text c = None \<and> (\<forall>p. c \<noteq> Load_dotenv p))"
proof -
  let ?w1 = "snd (load_config X w)"
  obtain cs where cs: "trace (snd (run_app X \<lparr>entrypoint_fnc = Entrypoint\<rparr> ?w1))
         = trace ?w1 @ Run_app \<lparr>entrypoint_fnc = Entrypoint\<rparr> # cs"
      "set cs \<subseteq> (\<Union>j \<in> set (jobs X). set (entrypoint_script j))"
    using run_app_trace by blast
  have "calls_of (module_body X True) w
           = calls_of (load_config X) w @ Run_app \<lparr>entrypoint_fnc = Entrypoint\<rparr> # cs"
    by (simp add: calls_of_def module_body_proceeds [OF assms] cs load_config_trace)
  moreover have "\<forall>c \<in> set cs. printed_text c = None \<and> (\<forall>p. c \<noteq> Load_dotenv p)"
    using cs(2) entrypoint_script_plain by blast
  ultimately show ?thesis by blast
qed

lemma secondary_loaded_iff:
  "Load_dotenv ''.env'' \<in> set (calls_of (module_body X is_main) w)
     \<longleftrightarrow> \<not> fst (load_dotenv X ''.env.local'' (environ w))"
proof (cases "missing (environ (snd (load_config X w))) = []")
  case False
  then show ?thesis by (simp add: calls_of_module_exit calls_of_load_config)
next
  case True
  show ?thesis
  proof (cases is_main)
    case True
    obtain cs where cs: "calls_of (module_body X True) w
           = calls_of (load_config X) w @ Run_app \<lparr>entrypoint_fnc = Entrypoint\<rparr> # cs"
         "\<forall>c \<in> set cs. printed_text c = None \<and> (\<forall>p. c \<noteq> Load_dotenv p)"
      using calls_of_module_main [OF \<open>missing _ = []\<close>] by blast
    then have "Load_dotenv ''.env'' \<notin> set cs" by blast
    with True show ?thesis by (simp add: cs(1) calls_of_load_config)
  next
    case False
    then have "calls_of (module_body X is_main) w = calls_of (load_config X) w"
      by (simp add: calls_of_def module_body_proceeds [OF True])
    then show ?thesis by (simp add: calls_of_load_config)
  qed
qed

lemma map_filter_mono_prefix:
  "prefix xs ys \<Longrightarrow> prefix (List.map_filter f xs) (List.map_filter f ys)"
  unfolding List.map_filter_def by (intro map_mono_prefix filter_mono_prefix)

lemma script_instructions:
  "List.map_filter instructions_passed (entrypoint_script ctx) = [Assistant_instructions]"
  by (simp add: entrypoint_script_def)

lemma script_greeting:
  "List.map_filter greeting_passed (entrypoint_script ctx) = [greeting]"
  by (simp add: entrypoint_script_def)

lemma calls_of_entrypoint_no_raise:
  assumes "\<forall>t c. \<not> raises X t c"
  shows "calls_of (entrypoint X ctx) w = entrypoint_script ctx"
proof -
  from assms have "\<And>t c. \<not> raises X t c" by blast
  then have "entrypoint X ctx w = (Inr (), w\<lparr>trace := trace w @ entrypoint_script ctx\<rparr>)"
    by (rule entrypoint_no_raise)
  then show ?thesis by (simp add: calls_of_def)
qed

subsection \<open>Substrings of the instruction string\<close>

lemma sublist_str_join: "l \<in> set ls \<Longrightarrow> sublist l (str_join sep ls)"
proof (induction sep ls rule: str_join.induct)
  case (3 sep x y ys)
  show ?case
  proof (cases "l = x")
    case True
    then show ?thesis by simp
  next
    case False
    with 3 have "sublist l (str_join sep (y # ys))" by simp
    then obtain p s where "str_join sep (y # ys) = p @ l @ s"
      by (auto simp: sublist_def)
    then have "str_join sep (x # y # ys) = (x @ sep @ p) @ l @ s" by simp
    then show ?thesis unfolding sublist_def by blast
  qed
qed simp_all

lemma patterns_in_instructions: "set prompt_patterns \<subseteq> set instruction_lines"
  by (auto simp: instruction_lines_def)

lemma label_in_instructions:
  assumes "i < length prompt_patterns" and "prefix lab (prompt_patterns ! i)"
  shows "sublist lab Assistant_instructions"
proof -
  have "prompt_patterns ! i \<in> set instruction_lines"
    using assms(1) patterns_in_instructions nth_mem by blast
  then have "sublist (prompt_patterns ! i) Assistant_instructions"
    unfolding Assistant_instructions_def by (rule sublist_str_join)
  moreover have "sublist lab (prompt_patterns ! i)"
    using assms(2) by (rule prefix_imp_sublist)
  ultimately show ?thesis
    unfolding sublist_def by (metis append.assoc)
qed

lemma length_patterns: "length prompt_patterns = 13"
  by (simp add: prompt_patterns_def)

lemma pattern_labels:
  "prefix ''KYC Status'' (prompt_patterns ! 1)"
  "prefix ''Documents Needed'' (prompt_patterns ! 2)"
  "prefix ''Settlement Status'' (prompt_patterns ! 6)"
  "prefix ''Refund Status'' (prompt_patterns ! 7)"
  "prefix ''Chargeback Status'' (prompt_patterns ! 8)"
  "prefix ''Delay Apology'' (prompt_patterns ! 9)"
  "prefix ''Escalation Offer'' (prompt_patterns ! 10)"
  "prefix ''Feedback Prompt'' (prompt_patterns ! 11)"
  by (simp_all add: prompt_patterns_def)

subsection \<open>Sample surroundings\<close>

lemma sample_loader_absent [simp]:
  "load_dotenv (sample_externals Map.empty) p e = (False, e)"
  by (simp add: sample_externals_def dotenv_loader_def)

lemma sample_no_raise [simp]: "\<not> raises (sample_externals files) t c"
  by (simp add: sample_externals_def)

lemma sample_credentials_complete:
  "\<forall>k \<in> set REQUIRED_ENV. \<exists>v. map_of sample_credentials k = Some v \<and> v \<noteq> []"
  by (simp add: REQUIRED_ENV_def sample_credentials_def)

subsection \<open>C1: the diagnostic names exactly the unset variables\<close>

text \<open>
  C1. Let \<open>S\<close> be a non-empty set of required variables, and let it be exactly the set of
  those that are unset when the validation runs, that is after the dotenv files were loaded;
  unset means that \<^verbatim>\<open>os.getenv\<close> gives \<^verbatim>\<open>None\<close> or the empty string, the test the validation
  makes. Then the module ends with \<^verbatim>\<open>SystemExit(1)\<close>, it has printed one message, which
  lists the names in \<open>S\<close> and no other, and up to there it has called nothing of the agent
  framework: no agent and no session was constructed. This holds whether the module is run
  as the main program or imported.
\<close>

theorem startup_names_missing_subset:
  assumes "S \<subseteq> set REQUIRED_ENV" and "S \<noteq> {}"
    and "\<forall>k \<in> set REQUIRED_ENV. k \<in> S \<longleftrightarrow> py_not (os_getenv (environ (snd (load_config X w))) k)"
  shows "fst (module_body X is_main w) = Inl (SystemExit 1)
       \<and> stdout (calls_of (module_body X is_main) w) =
           [''Missing required environment variables: ''
            @ str_join '', '' (filter (\<lambda>k. k \<in> S)
                [''LIVEKIT_URL'', ''LIVEKIT_API_KEY'', ''LIVEKIT_API_SECRET'',
                 ''OPENAI_API_KEY'', ''CARTESIA_API_KEY'', ''DEEPGRAM_API_KEY''])
            @ ''.\<newline>Create a .env.local file in the project folder (copy from .env.local.example) and fill in your credentials, then re-run this script.'']
       \<and> (\<forall>c \<in> set (calls_of (module_body X is_main) w). \<not> framework_op c)"
proof -
  let ?e = "environ (snd (load_config X w))"
  have m: "missing ?e = filter (\<lambda>k. k \<in> S) REQUIRED_ENV"
    unfolding missing_def using assms(3) by (intro filter_cong) auto
  have "set (missing ?e) = S"
    using assms(1) by (auto simp: m)
  with assms(2) have ne: "missing ?e \<noteq> []" by auto
  have 1: "fst (module_body X is_main w) = Inl (SystemExit 1)"
    by (simp add: module_body_exit [OF ne])
  have 2: "stdout (calls_of (module_body X is_main) w)
      = [missing_message (str_join '', '' (filter (\<lambda>k. k \<in> S) REQUIRED_ENV))]"
    by (simp add: calls_of_module_exit [OF ne] m) (simp add: stdout_def)
  have 3: "\<forall>c \<in> set (calls_of (module_body X is_main) w). \<not> framework_op c"
    by (auto simp: calls_of_module_exit [OF ne] dest: framework_op_load_config)
  from 1 2 3 show ?thesis
    by (simp add: missing_message_def REQUIRED_ENV_def)
qed

theorem startup_names_missing_subset_witness:
  "fst (module_body (sample_externals Map.empty) True
         (sample_world [(''LIVEKIT_URL'', ''wss://bfsi.livekit.cloud''),
                        (''LIVEKIT_API_SECRET'', ''lk-secret''),
                        (''OPENAI_API_KEY'', ''sk-openai''),
                        (''CARTESIA_API_KEY'', ''sk-cartesia'')]))
     = Inl (SystemExit 1)
   \<and> stdout (calls_of (module_body (sample_externals Map.empty) True)
         (sample_world [(''LIVEKIT_URL'', ''wss://bfsi.livekit.cloud''),
                        (''LIVEKIT_API_SECRET'', ''lk-secret''),
                        (''OPENAI_API_KEY'', ''sk-openai''),
                        (''CARTESIA_API_KEY'', ''sk-cartesia'')]))
     = [''Missing required environment variables: LIVEKIT_API_KEY, DEEPGRAM_API_KEY.\<newline>Create a .env.local file in the project folder (copy from .env.local.example) and fill in your credentials, then re-run this script.'']"
proof -
  let ?X = "sample_externals Map.empty"
  let ?w = "sample_world [(''LIVEKIT_URL'', ''wss://bfsi.livekit.cloud''),
                        (''LIVEKIT_API_SECRET'', ''lk-secret''),
                        (''OPENAI_API_KEY'', ''sk-openai''),
                        (''CARTESIA_API_KEY'', ''sk-cartesia'')]"
  let ?S = "{''LIVEKIT_API_KEY'', ''DEEPGRAM_API_KEY''}"
  have h1: "?S \<subseteq> set REQUIRED_ENV" by (simp add: REQUIRED_ENV_def)
  have h2: "?S \<noteq> {}" by simp
  have h3: "\<forall>k \<in> set REQUIRED_ENV. k \<in> ?S \<longleftrightarrow> py_not (os_getenv (environ (snd (load_config ?X ?w))) k)"
    by (simp add: REQUIRED_ENV_def load_config_environ sample_world_def os_getenv_def)
  show ?thesis
    using startup_names_missing_subset [OF h1 h2 h3, of True] by simp
qed

subsection \<open>C2: no session when a variable is absent\<close>

text \<open>
  C2. If a required variable is absent from the environment when the validation runs, the
  module ends with \<^verbatim>\<open>SystemExit(1)\<close> and, up to there, has made no call into the agent
  framework: \<^verbatim>\<open>Assistant\<close> was not instantiated, the entrypoint was not handed to
  \<^verbatim>\<open>run_app\<close>, and no session was started.
\<close>

theorem missing_variable_stops_before_framework:
  assumes "\<exists>k \<in> set REQUIRED_ENV. os_getenv (environ (snd (load_config X w))) k = None"
  shows "fst (module_body X is_main w) = Inl (SystemExit 1)
       \<and> (\<forall>c \<in> set (calls_of (module_body X is_main) w). \<not> framework_op c)
       \<and> Run_app \<lparr>entrypoint_fnc = Entrypoint\<rparr> \<notin> set (calls_of (module_body X is_main) w)
       \<and> Agent_init Assistant_instructions \<notin> set (calls_of (module_body X is_main) w)
       \<and> (\<forall>s r a opts. Session_start s r a opts \<notin> set (calls_of (module_body X is_main) w))"
proof -
  from assms have ne: "missing (environ (snd (load_config X w))) \<noteq> []"
    by (force simp: missing_def filter_empty_conv)
  have 1: "\<forall>c \<in> set (calls_of (module_body X is_main) w). \<not> framework_op c"
    by (auto simp: calls_of_module_exit [OF ne] dest: framework_op_load_config)
  then have "\<And>c. framework_op c \<Longrightarrow> c \<notin> set (calls_of (module_body X is_main) w)"
    by blast
  then show ?thesis
    using 1 by (simp add: module_body_exit [OF ne])
qed

theorem missing_variable_stops_before_framework_witness:
  "os_getenv (environ (snd (load_config (sample_externals Map.empty)
       (sample_world [(''LIVEKIT_URL'', ''wss://bfsi.livekit.cloud'')])))) ''OPENAI_API_KEY'' = None
   \<and> fst (module_body (sample_externals Map.empty) True
         (sample_world [(''LIVEKIT_URL'', ''wss://bfsi.livekit.cloud'')])) = Inl (SystemExit 1)
   \<and> Run_app \<lparr>entrypoint_fnc = Entrypoint\<rparr> \<notin> set (calls_of (module_body (sample_externals Map.empty) True)
         (sample_world [(''LIVEKIT_URL'', ''wss://bfsi.livekit.cloud'')]))"
proof -
  let ?X = "sample_externals Map.empty"
  let ?w = "sample_world [(''LIVEKIT_URL'', ''wss://bfsi.livekit.cloud'')]"
  have v: "os_getenv (environ (snd (load_config ?X ?w))) ''OPENAI_API_KEY'' = None"
    by (simp add: load_config_environ sample_world_def os_getenv_def)
  have k: "''OPENAI_API_KEY'' \<in> set REQUIRED_ENV" by (simp add: REQUIRED_ENV_def)
  from v k have h: "\<exists>k \<in> set REQUIRED_ENV. os_getenv (environ (snd (load_config ?X ?w))) k = None"
    by blast
  show ?thesis
    using missing_variable_stops_before_framework [OF h, of True] v by simp
qed

subsection \<open>C3: with all variables set the entrypoint is registered\<close>

text \<open>
  C3. If every required variable has a non-empty value when the validation runs, the startup
  returns without raising, nothing is printed, and the module run as the main program calls
  \<^verbatim>\<open>run_app\<close> with the worker options whose \<^verbatim>\<open>entrypoint_fnc\<close> is the entrypoint, right
  after the loading of the dotenv files.
\<close>

theorem all_set_registers_entrypoint:
  assumes "\<forall>k \<in> set REQUIRED_ENV.
             \<exists>v. os_getenv (environ (snd (load_config X w))) k = Some v \<and> v \<noteq> []"
  shows "fst (startup X w) = Inr ()
       \<and> stdout (calls_of (module_body X True) w) = []
       \<and> (\<exists>cs. calls_of (module_body X True) w
              = calls_of (load_config X) w @ Run_app \<lparr>entrypoint_fnc = Entrypoint\<rparr> # cs)"
proof -
  from assms have e: "missing (environ (snd (load_config X w))) = []"
    by (simp add: missing_empty_iff os_getenv_def)
  obtain cs where cs: "calls_of (module_body X True) w
           = calls_of (load_config X) w @ Run_app \<lparr>entrypoint_fnc = Entrypoint\<rparr> # cs"
         "\<forall>c \<in> set cs. printed_text c = None \<and> (\<forall>p. c \<noteq> Load_dotenv p)"
    using calls_of_module_main [OF e] by blast
  have "stdout cs = []" using cs(2) by (simp add: stdout_plain)
  then have "stdout (calls_of (module_body X True) w) = []"
    by (simp add: cs(1)) (simp add: stdout_def)
  with cs(1) show ?thesis by (simp add: startup_proceeds [OF e])
qed

theorem all_set_registers_entrypoint_witness:
  "missing (environ (snd (load_config (sample_externals Map.empty) (sample_world sample_credentials)))) = []
   \<and> fst (startup (sample_externals Map.empty) (sample_world sample_credentials)) = Inr ()
   \<and> stdout (calls_of (module_body (sample_externals Map.empty) True) (sample_world sample_credentials)) = []
   \<and> Run_app \<lparr>entrypoint_fnc = Entrypoint\<rparr>
       \<in> set (calls_of (module_body (sample_externals Map.empty) True) (sample_world sample_credentials))"
proof -
  let ?X = "sample_externals Map.empty"
  let ?w = "sample_world sample_credentials"
  have e: "environ (snd (load_config ?X ?w)) = map_of sample_credentials"
    by (simp add: load_config_environ sample_world_def)
  have h: "\<forall>k \<in> set REQUIRED_ENV.
             \<exists>v. os_getenv (environ (snd (load_config ?X ?w))) k = Some v \<and> v \<noteq> []"
    using sample_credentials_complete by (simp add: e os_getenv_def)
  then have m: "missing (environ (snd (load_config ?X ?w))) = []"
    by (simp add: missing_empty_iff os_getenv_def)
  show ?thesis
    using all_set_registers_entrypoint [OF h] m by auto
qed

subsection \<open>C4: the calls of the entrypoint\<close>

text \<open>
  C4. For every job context, the entrypoint constructs the pipeline once, with the
  speech-to-text model, the language model, the text-to-speech voice and the voice activity
  detector of the source, then starts the session once in the room of the context, then
  requests one reply with the literal greeting, in that order, when the calls into the
  framework return. The entrypoint catches nothing, so if one of them raises, the calls
  made are an initial segment of that sequence: never more than one of each, never out of
  order.
\<close>

theorem entrypoint_calls_in_order:
  "(let session = \<lparr>stt = ''deepgram/nova-2-general:en'', llm = ''openai/gpt-4.1-mini'',
          tts = ''cartesia/sonic-3:9626c31c-bec5-4cca-baa8-f8ba9e84c8bc'', vad = Silero_VAD\<rparr>;
        start = Session_start session (room ctx) \<lparr>instructions = Assistant_instructions\<rparr>
          \<lparr>noise_cancellation = BVC\<rparr>;
        reply = Generate_reply session
          ''Hi u have Reached the suppoRt of bfsi how may i help u today .'';
        script = [VAD_load, AgentSession_init session, Agent_init Assistant_instructions,
          BVC_init, RoomInputOptions_init BVC, start, reply]
    in prefix (calls_of (entrypoint X ctx) w) script
       \<and> prefix (filter pipeline_call (calls_of (entrypoint X ctx) w))
            [AgentSession_init session, start, reply]
       \<and> ((\<forall>t c. \<not> raises X t c) \<longrightarrow>
            fst (entrypoint X ctx w) = Inr ()
            \<and> calls_of (entrypoint X ctx) w = script
            \<and> filter pipeline_call (calls_of (entrypoint X ctx) w)
                = [AgentSession_init session, start, reply]))"
proof -
  have p: "prefix (calls_of (entrypoint X ctx) w) (entrypoint_script ctx)"
    by (rule calls_of_entrypoint)
  then have "prefix (filter pipeline_call (calls_of (entrypoint X ctx) w))
       (filter pipeline_call (entrypoint_script ctx))"
    by (rule filter_mono_prefix)
  then have q: "prefix (filter pipeline_call (calls_of (entrypoint X ctx) w))
       [AgentSession_init the_session,
        Session_start the_session (room ctx) \<lparr>instructions = Assistant_instructions\<rparr>
          \<lparr>noise_cancellation = BVC\<rparr>,
        Generate_reply the_session greeting]"
    by (simp add: entrypoint_script_def)
  have r: "fst (entrypoint X ctx w) = Inr ()
      \<and> calls_of (entrypoint X ctx) w = entrypoint_script ctx" if "\<forall>t c. \<not> raises X t c"
  proof -
    from that have "\<And>t c. \<not> raises X t c" by blast
    then have "entrypoint X ctx w = (Inr (), w\<lparr>trace := trace w @ entrypoint_script ctx\<rparr>)"
      by (rule entrypoint_no_raise)
    then show ?thesis by (simp add: calls_of_def)
  qed
  have s: "filter pipeline_call (entrypoint_script ctx) =
       [AgentSession_init the_session,
        Session_start the_session (room ctx) \<lparr>instructions = Assistant_instructions\<rparr>
          \<lparr>noise_cancellation = BVC\<rparr>,
        Generate_reply the_session greeting]"
    by (simp add: entrypoint_script_def)
  from p q r s show ?thesis
    unfolding Let_def entrypoint_script_def the_session_def greeting_def by auto
qed

theorem entrypoint_calls_in_order_witness:
  "fst (entrypoint (sample_externals Map.empty) \<lparr>room = Room ''support-line''\<rparr>
         (sample_world sample_credentials)) = Inr ()
   \<and> filter pipeline_call (calls_of (entrypoint (sample_externals Map.empty)
         \<lparr>room = Room ''support-line''\<rparr>) (sample_world sample_credentials)) =
       [AgentSession_init
          \<lparr>stt = ''deepgram/nova-2-general:en'', llm = ''openai/gpt-4.1-mini'',
           tts = ''cartesia/sonic-3:9626c31c-bec5-4cca-baa8-f8ba9e84c8bc'', vad = Silero_VAD\<rparr>,
        Session_start
          \<lparr>stt = ''deepgram/nova-2-general:en'', llm = ''openai/gpt-4.1-mini'',
           tts = ''cartesia/sonic-3:9626c31c-bec5-4cca-baa8-f8ba9e84c8bc'', vad = Silero_VAD\<rparr>
          (Room ''support-line'') \<lparr>instructions = Assistant_instructions\<rparr>
          \<lparr>noise_cancellation = BVC\<rparr>,
        Generate_reply
          \<lparr>stt = ''deepgram/nova-2-general:en'', llm = ''openai/gpt-4.1-mini'',
           tts = ''cartesia/sonic-3:9626c31c-bec5-4cca-baa8-f8ba9e84c8bc'', vad = Silero_VAD\<rparr>
          ''Hi u have Reached the suppoRt of bfsi how may i help u today .'']"
proof -
  have h: "\<forall>t c. \<not> raises (sample_externals Map.empty) t c" by simp
  show ?thesis
    using entrypoint_calls_in_order [where X = "sample_externals Map.empty"
        and ctx = "\<lparr>room = Room ''support-line''\<rparr>" and w = "sample_world sample_credentials"] h
    by (simp add: Let_def)
qed

subsection \<open>C5: the template labels of the instruction string\<close>

text \<open>
  C5. The instruction string that \<^verbatim>\<open>Assistant()\<close> passes to the agent is not empty and
  contains each of the labels KYC Status, Documents Needed, Settlement Status, Refund
  Status, Chargeback Status, Delay Apology, Escalation Offer and Feedback Prompt as a
  contiguous substring.
\<close>

theorem instructions_contain_labels:
  "Assistant_instructions \<noteq> []
   \<and> sublist ''KYC Status'' Assistant_instructions
   \<and> sublist ''Documents Needed'' Assistant_instructions
   \<and> sublist ''Settlement Status'' Assistant_instructions
   \<and> sublist ''Refund Status'' Assistant_instructions
   \<and> sublist ''Chargeback Status'' Assistant_instructions
   \<and> sublist ''Delay Apology'' Assistant_instructions
   \<and> sublist ''Escalation Offer'' Assistant_instructions
   \<and> sublist ''Feedback Prompt'' Assistant_instructions
   \<and> calls_of (Assistant_init X) w = [Agent_init Assistant_instructions]
   \<and> fst (Assistant_init X w) \<in>
        {Inr \<lparr>instructions = Assistant_instructions\<rparr>,
         Inl (Framework_error (Agent_init Assistant_instructions))}"
proof -
  have k: "sublist ''KYC Status'' Assistant_instructions"
    by (rule label_in_instructions [OF _ pattern_labels(1)]) (simp add: length_patterns)
  then have "Assistant_instructions \<noteq> []" by auto
  moreover have "sublist ''Documents Needed'' Assistant_instructions"
    by (rule label_in_instructions [OF _ pattern_labels(2)]) (simp add: length_patterns)
  moreover have "sublist ''Settlement Status'' Assistant_instructions"
    by (rule label_in_instructions [OF _ pattern_labels(3)]) (simp add: length_patterns)
  moreover have "sublist ''Refund Status'' Assistant_instructions"
    by (rule label_in_instructions [OF _ pattern_labels(4)]) (simp add: length_patterns)
  moreover have "sublist ''Chargeback Status'' Assistant_instructions"
    by (rule label_in_instructions [OF _ pattern_labels(5)]) (simp add: length_patterns)
  moreover have "sublist ''Delay Apology'' Assistant_instructions"
    by (rule label_in_instructions [OF _ pattern_labels(6)]) (simp add: length_patterns)
  moreover have "sublist ''Escalation Offer'' Assistant_instructions"
    by (rule label_in_instructions [OF _ pattern_labels(7)]) (simp add: length_patterns)
  moreover have "sublist ''Feedback Prompt'' Assistant_instructions"
    by (rule label_in_instructions [OF _ pattern_labels(8)]) (simp add: length_patterns)
  moreover have "calls_of (Assistant_init X) w = [Agent_init Assistant_instructions]"
    by (simp add: calls_of_def Assistant_init_def framework_call_def record_call_def)
  moreover have "fst (Assistant_init X w) \<in>
        {Inr \<lparr>instructions = Assistant_instructions\<rparr>,
         Inl (Framework_error (Agent_init Assistant_instructions))}"
    by (simp add: Assistant_init_def framework_call_def)
  ultimately show ?thesis using k by blast
qed

subsection \<open>C6: the secondary dotenv file\<close>

text \<open>
  C6. The module loads \<^verbatim>\<open>.env\<close> if and only if loading \<^verbatim>\<open>.env.local\<close> returned false.
  When the primary file is absent (loading it returns false and leaves the environment as
  it was) and loading the secondary file leaves every required variable with a non-empty
  value, the startup returns without raising, both files were tried in that order, and
  nothing is printed.
\<close>

theorem secondary_file_fallback:
  "(Load_dotenv ''.env'' \<in> set (calls_of (module_body X is_main) w)
      \<longleftrightarrow> \<not> fst (load_dotenv X ''.env.local'' (environ w)))
   \<and> (load_dotenv X ''.env.local'' (environ w) = (False, environ w)
      \<longrightarrow> (\<forall>k \<in> set REQUIRED_ENV.
             \<exists>v. snd (load_dotenv X ''.env'' (environ w)) k = Some v \<and> v \<noteq> [])
      \<longrightarrow> fst (startup X w) = Inr ()
          \<and> calls_of (startup X) w = [Load_dotenv ''.env.local'', Load_dotenv ''.env'']
          \<and> stdout (calls_of (module_body X True) w) = [])"
proof (intro conjI impI)
  show "Load_dotenv ''.env'' \<in> set (calls_of (module_body X is_main) w)
      \<longleftrightarrow> \<not> fst (load_dotenv X ''.env.local'' (environ w))"
    by (rule secondary_loaded_iff)
next
  assume p: "load_dotenv X ''.env.local'' (environ w) = (False, environ w)"
    and s: "\<forall>k \<in> set REQUIRED_ENV.
             \<exists>v. snd (load_dotenv X ''.env'' (environ w)) k = Some v \<and> v \<noteq> []"
  have env: "environ (snd (load_config X w)) = snd (load_dotenv X ''.env'' (environ w))"
    by (simp add: load_config_environ p)
  with s have h: "\<forall>k \<in> set REQUIRED_ENV.
             \<exists>v. os_getenv (environ (snd (load_config X w))) k = Some v \<and> v \<noteq> []"
    by (simp add: os_getenv_def)
  then have e: "missing (environ (snd (load_config X w))) = []"
    by (simp add: missing_empty_iff os_getenv_def)
  show "fst (startup X w) = Inr ()" by (simp add: startup_proceeds [OF e])
  show "calls_of (startup X) w = [Load_dotenv ''.env.local'', Load_dotenv ''.env'']"
    by (simp add: calls_of_startup_proceeds [OF e] calls_of_load_config p)
  show "stdout (calls_of (module_body X True) w) = []"
  proof -
    obtain cs where cs: "calls_of (module_body X True) w
           = calls_of (load_config X) w @ Run_app \<lparr>entrypoint_fnc = Entrypoint\<rparr> # cs"
         "\<forall>c \<in> set cs. printed_text c = None \<and> (\<forall>p. c \<noteq> Load_dotenv p)"
      using calls_of_module_main [OF e] by blast
    have "stdout cs = []" using cs(2) by (simp add: stdout_plain)
    then show ?thesis by (simp add: cs(1)) (simp add: stdout_def)
  qed
qed

theorem secondary_file_fallback_witness:
  "load_dotenv (sample_externals [''.env'' \<mapsto> sample_credentials]) ''.env.local''
       (environ (sample_world [])) = (False, environ (sample_world []))
   \<and> missing (snd (load_dotenv (sample_externals [''.env'' \<mapsto> sample_credentials]) ''.env''
       (environ (sample_world [])))) = []
   \<and> Load_dotenv ''.env''
       \<in> set (calls_of (module_body (sample_externals [''.env'' \<mapsto> sample_credentials]) True)
           (sample_world []))
   \<and> fst (startup (sample_externals [''.env'' \<mapsto> sample_credentials]) (sample_world [])) = Inr ()
   \<and> stdout (calls_of (module_body (sample_externals [''.env'' \<mapsto> sample_credentials]) True)
       (sample_world [])) = []"
proof -
  let ?X = "sample_externals [''.env'' \<mapsto> sample_credentials]"
  let ?w = "sample_world []"
  have p: "load_dotenv ?X ''.env.local'' (environ ?w) = (False, environ ?w)"
    by (simp add: sample_externals_def dotenv_loader_def)
  have s: "snd (load_dotenv ?X ''.env'' (environ ?w)) = map_of (rev sample_credentials)"
    by (simp add: sample_externals_def dotenv_loader_def sample_world_def)
  have c: "\<forall>k \<in> set REQUIRED_ENV.
             \<exists>v. snd (load_dotenv ?X ''.env'' (environ ?w)) k = Some v \<and> v \<noteq> []"
    unfolding s by (simp add: REQUIRED_ENV_def sample_credentials_def)
  then have m: "missing (snd (load_dotenv ?X ''.env'' (environ ?w))) = []"
    by (simp add: missing_empty_iff)
  show ?thesis
    using secondary_file_fallback [of ?X True ?w] p c m by simp
qed

subsection \<open>C7: no file and no variable\<close>

text \<open>
  C7. When both dotenv files are absent (loading either returns false and leaves the
  environment as it was) and none of the six required variables is in the environment, the
  module tries both files, prints the message that names the six variables and ends with
  \<^verbatim>\<open>SystemExit(1)\<close>.
\<close>

theorem no_files_no_variables_fails:
  assumes "load_dotenv X ''.env.local'' (environ w) = (False, environ w)"
    and "load_dotenv X ''.env'' (environ w) = (False, environ w)"
    and "\<forall>k \<in> set REQUIRED_ENV. os_getenv (environ w) k = None"
  shows "fst (module_body X is_main w) = Inl (SystemExit 1)
       \<and> calls_of (module_body X is_main) w =
           [Load_dotenv ''.env.local'', Load_dotenv ''.env'',
            Print ''Missing required environment variables: LIVEKIT_URL, LIVEKIT_API_KEY, LIVEKIT_API_SECRET, OPENAI_API_KEY, CARTESIA_API_KEY, DEEPGRAM_API_KEY.\<newline>Create a .env.local file in the project folder (copy from .env.local.example) and fill in your credentials, then re-run this script.'']"
proof -
  have env: "environ (snd (load_config X w)) = environ w"
    by (simp add: load_config_environ assms)
  have m: "missing (environ w) = REQUIRED_ENV"
    unfolding missing_def using assms(3) by (simp add: filter_id_conv)
  then have ne: "missing (environ (snd (load_config X w))) \<noteq> []"
    by (simp add: env REQUIRED_ENV_def)
  show ?thesis
    by (simp add: module_body_exit [OF ne] calls_of_module_exit [OF ne] calls_of_load_config
        assms(1) env m) (simp add: REQUIRED_ENV_def missing_message_def)
qed

theorem no_files_no_variables_fails_witness:
  "load_dotenv (sample_externals Map.empty) ''.env.local'' (environ (sample_world []))
     = (False, environ (sample_world []))
   \<and> load_dotenv (sample_externals Map.empty) ''.env'' (environ (sample_world []))
     = (False, environ (sample_world []))
   \<and> missing (environ (sample_world [])) = REQUIRED_ENV
   \<and> fst (module_body (sample_externals Map.empty) True (sample_world [])) = Inl (SystemExit 1)
   \<and> stdout (calls_of (module_body (sample_externals Map.empty) True) (sample_world [])) =
       [''Missing required environment variables: LIVEKIT_URL, LIVEKIT_API_KEY, LIVEKIT_API_SECRET, OPENAI_API_KEY, CARTESIA_API_KEY, DEEPGRAM_API_KEY.\<newline>Create a .env.local file in the project folder (copy from .env.local.example) and fill in your credentials, then re-run this script.'']"
proof -
  let ?X = "sample_externals Map.empty"
  let ?w = "sample_world []"
  have h1: "load_dotenv ?X ''.env.local'' (environ ?w) = (False, environ ?w)" by simp
  have h2: "load_dotenv ?X ''.env'' (environ ?w) = (False, environ ?w)" by simp
  have h3: "\<forall>k \<in> set REQUIRED_ENV. os_getenv (environ ?w) k = None"
    by (simp add: sample_world_def os_getenv_def)
  have m: "missing (environ ?w) = REQUIRED_ENV"
    by (simp add: missing_def sample_world_def os_getenv_def)
  show ?thesis
    using no_files_no_variables_fails [OF h1 h2 h3, of True] m
    by (simp add: stdout_def)
qed

subsection \<open>C8: an empty value is a missing value\<close>

text \<open>
  C8. For a required variable, the validation does the same whether the variable holds the
  empty string or is absent: the list of missing names is the same and so is what is
  printed. With the empty string the variable is in the missing list and the validation, and
  with it the module, ends with \<^verbatim>\<open>SystemExit(1)\<close>.
\<close>

theorem empty_value_counts_as_absent:
  assumes "k \<in> set REQUIRED_ENV"
  shows "missing (e(k \<mapsto> [])) = missing (e(k := None))
       \<and> k \<in> set (missing (e(k \<mapsto> [])))
       \<and> fst (startup_validation \<lparr>environ = e(k \<mapsto> []), trace = t\<rparr>) = Inl (SystemExit 1)
       \<and> calls_of startup_validation \<lparr>environ = e(k \<mapsto> []), trace = t\<rparr>
           = calls_of startup_validation \<lparr>environ = e(k := None), trace = t\<rparr>
       \<and> (environ (snd (load_config X w)) k = Some []
            \<longrightarrow> fst (module_body X is_main w) = Inl (SystemExit 1))"
proof -
  have 1: "missing (e(k \<mapsto> [])) = missing (e(k := None))"
    by (simp add: missing_def os_getenv_def cong: filter_cong)
  have 2: "k \<in> set (missing (e(k \<mapsto> [])))"
    using assms by (simp add: missing_def os_getenv_def)
  then have ne: "missing (e(k \<mapsto> [])) \<noteq> []" by auto
  have 3: "fst (startup_validation \<lparr>environ = e(k \<mapsto> []), trace = t\<rparr>) = Inl (SystemExit 1)"
    using ne by (simp add: startup_validation_def bind_prog_def print_def raise_exn_def)
  have 4: "calls_of startup_validation \<lparr>environ = e(k \<mapsto> []), trace = t\<rparr>
           = calls_of startup_validation \<lparr>environ = e(k := None), trace = t\<rparr>"
    by (simp add: calls_of_def startup_validation_def bind_prog_def print_def raise_exn_def
        record_call_def return_prog_def Let_def 1)
  have 5: "environ (snd (load_config X w)) k = Some []
            \<longrightarrow> fst (module_body X is_main w) = Inl (SystemExit 1)"
  proof
    assume "environ (snd (load_config X w)) k = Some []"
    with assms have "k \<in> set (missing (environ (snd (load_config X w))))"
      by (simp add: missing_def os_getenv_def)
    then have "missing (environ (snd (load_config X w))) \<noteq> []" by auto
    then show "fst (module_body X is_main w) = Inl (SystemExit 1)"
      by (simp add: module_body_exit)
  qed
  from 1 2 3 4 5 show ?thesis by blast
qed

theorem empty_value_counts_as_absent_witness:
  "''OPENAI_API_KEY'' \<in> set REQUIRED_ENV
   \<and> missing ((map_of sample_credentials)(''OPENAI_API_KEY'' \<mapsto> [])) = [''OPENAI_API_KEY'']
   \<and> missing ((map_of sample_credentials)(''OPENAI_API_KEY'' := None)) = [''OPENAI_API_KEY'']
   \<and> fst (startup_validation
        \<lparr>environ = (map_of sample_credentials)(''OPENAI_API_KEY'' \<mapsto> []), trace = []\<rparr>)
       = Inl (SystemExit 1)
   \<and> fst (module_body (sample_externals Map.empty) True
        \<lparr>environ = (map_of sample_credentials)(''OPENAI_API_KEY'' \<mapsto> []), trace = []\<rparr>)
       = Inl (SystemExit 1)"
proof -
  let ?X = "sample_externals Map.empty"
  let ?e = "map_of sample_credentials"
  let ?w = "\<lparr>environ = ?e(''OPENAI_API_KEY'' \<mapsto> []), trace = []\<rparr>"
  have k: "''OPENAI_API_KEY'' \<in> set REQUIRED_ENV" by (simp add: REQUIRED_ENV_def)
  have v: "environ (snd (load_config ?X ?w)) ''OPENAI_API_KEY'' = Some []"
    by (simp add: load_config_environ)
  have m: "missing (?e(''OPENAI_API_KEY'' := None)) = [''OPENAI_API_KEY'']"
    by (simp add: missing_def REQUIRED_ENV_def os_getenv_def sample_credentials_def)
  show ?thesis
    using empty_value_counts_as_absent [OF k, of ?e "[]" ?X ?w True] k v m by simp
qed

subsection \<open>C9: the order of the names in the diagnostic\<close>

text \<open>
  C9. The missing names are a subsequence of the required list: they come in the order
  LIVEKIT_URL, LIVEKIT_API_KEY, LIVEKIT_API_SECRET, OPENAI_API_KEY, CARTESIA_API_KEY,
  DEEPGRAM_API_KEY. The diagnostic holds them joined by a comma and a space, and two
  environments with the same set of missing variables give the same list.
\<close>

theorem message_in_declaration_order:
  "subseq (missing e) REQUIRED_ENV
   \<and> missing e = filter (\<lambda>k. e k = None \<or> e k = Some [])
        [''LIVEKIT_URL'', ''LIVEKIT_API_KEY'', ''LIVEKIT_API_SECRET'',
         ''OPENAI_API_KEY'', ''CARTESIA_API_KEY'', ''DEEPGRAM_API_KEY'']
   \<and> (missing e \<noteq> [] \<longrightarrow>
        calls_of startup_validation \<lparr>environ = e, trace = t\<rparr> =
          [Print (''Missing required environment variables: ''
                  @ str_join '', '' (missing e)
                  @ ''.\<newline>Create a .env.local file in the project folder (copy from .env.local.example) and fill in your credentials, then re-run this script.'')])
   \<and> (set (missing e) = set (missing e') \<longrightarrow> missing e = missing e')"
proof (intro conjI impI)
  show "subseq (missing e) REQUIRED_ENV" by (simp add: missing_def)
  show "missing e = filter (\<lambda>k. e k = None \<or> e k = Some [])
        [''LIVEKIT_URL'', ''LIVEKIT_API_KEY'', ''LIVEKIT_API_SECRET'',
         ''OPENAI_API_KEY'', ''CARTESIA_API_KEY'', ''DEEPGRAM_API_KEY'']"
    unfolding missing_def os_getenv_def REQUIRED_ENV_def py_not_iff ..
next
  assume "missing e \<noteq> []"
  then show "calls_of startup_validation \<lparr>environ = e, trace = t\<rparr> =
          [Print (''Missing required environment variables: ''
                  @ str_join '', '' (missing e)
                  @ ''.\<newline>Create a .env.local file in the project folder (copy from .env.local.example) and fill in your credentials, then re-run this script.'')]"
    by (simp add: calls_of_def startup_validation_def bind_prog_def print_def raise_exn_def
        record_call_def missing_message_def)
next
  assume "set (missing e) = set (missing e')"
  then show "missing e = missing e'"
    using missing_filter [of e] missing_filter [of e'] by simp
qed

theorem message_in_declaration_order_witness:
  "missing (map_of [(''DEEPGRAM_API_KEY'', ''''), (''LIVEKIT_API_KEY'', ''lk-key''),
                    (''LIVEKIT_API_SECRET'', ''lk-secret''), (''CARTESIA_API_KEY'', ''sk-cartesia'')])
     = [''LIVEKIT_URL'', ''OPENAI_API_KEY'', ''DEEPGRAM_API_KEY'']
   \<and> missing (map_of [(''LIVEKIT_API_SECRET'', ''s''), (''CARTESIA_API_KEY'', ''c''),
                      (''OPENAI_API_KEY'', ''''), (''LIVEKIT_API_KEY'', ''k'')])
     = [''LIVEKIT_URL'', ''OPENAI_API_KEY'', ''DEEPGRAM_API_KEY'']
   \<and> calls_of startup_validation
        \<lparr>environ = map_of [(''DEEPGRAM_API_KEY'', ''''), (''LIVEKIT_API_KEY'', ''lk-key''),
                    (''LIVEKIT_API_SECRET'', ''lk-secret''), (''CARTESIA_API_KEY'', ''sk-cartesia'')],
         trace = []\<rparr>
     = [Print ''Missing required environment variables: LIVEKIT_URL, OPENAI_API_KEY, DEEPGRAM_API_KEY.\<newline>Create a .env.local file in the project folder (copy from .env.local.example) and fill in your credentials, then re-run this script.'']"
proof -
  let ?e = "map_of [(''DEEPGRAM_API_KEY'', ''''), (''LIVEKIT_API_KEY'', ''lk-key''),
                    (''LIVEKIT_API_SECRET'', ''lk-secret''), (''CARTESIA_API_KEY'', ''sk-cartesia'')]"
  let ?e' = "map_of [(''LIVEKIT_API_SECRET'', ''s''), (''CARTESIA_API_KEY'', ''c''),
                      (''OPENAI_API_KEY'', ''''), (''LIVEKIT_API_KEY'', ''k'')]"
  have m: "missing ?e = [''LIVEKIT_URL'', ''OPENAI_API_KEY'', ''DEEPGRAM_API_KEY'']"
    using message_in_declaration_order [of ?e "[]" ?e'] by simp
  have m': "missing ?e' = [''LIVEKIT_URL'', ''OPENAI_API_KEY'', ''DEEPGRAM_API_KEY'']"
    using message_in_declaration_order [of ?e' "[]" ?e] by simp
  have "missing ?e \<noteq> [] \<longrightarrow>
        calls_of startup_validation \<lparr>environ = ?e, trace = []\<rparr> =
          [Print (''Missing required environment variables: ''
                  @ str_join '', '' (missing ?e)
                  @ ''.\<newline>Create a .env.local file in the project folder (copy from .env.local.example) and fill in your credentials, then re-run this script.'')]"
    using message_in_declaration_order [of ?e "[]" ?e'] by blast
  then have "calls_of startup_validation \<lparr>environ = ?e, trace = []\<rparr> =
     [Print ''Missing required environment variables: LIVEKIT_URL, OPENAI_API_KEY, DEEPGRAM_API_KEY.\<newline>Create a .env.local file in the project folder (copy from .env.local.example) and fill in your credentials, then re-run this script.'']"
    unfolding m by simp
  with m m' show ?thesis by blast
qed

subsection \<open>C10: the instruction string and the greeting are constants\<close>

text \<open>
  C10. Any two runs of the entrypoint, in whatever environment, framework and job context,
  pass the same instruction string to the agent and the same greeting to the reply
  request, and any two constructions of the assistant yield agents with the same
  instructions. The texts are issued: when the calls into the framework return, a run
  passes the instruction string to the agent exactly once and the literal greeting to the
  reply request exactly once, so two such runs issue the same texts; when a call raises,
  the texts issued are an initial segment of these.
\<close>

theorem instructions_and_greeting_constant:
  "(Agent_init s \<in> set (calls_of (entrypoint X ctx) w)
      \<longrightarrow> Agent_init s' \<in> set (calls_of (entrypoint X' ctx') w') \<longrightarrow> s = s')
   \<and> (Generate_reply ses g \<in> set (calls_of (entrypoint X ctx) w)
      \<longrightarrow> Generate_reply ses' g' \<in> set (calls_of (entrypoint X' ctx') w') \<longrightarrow> g = g')
   \<and> (fst (Assistant_init X w) = Inr a
      \<longrightarrow> fst (Assistant_init X' w') = Inr a' \<longrightarrow> instructions a = instructions a')
   \<and> prefix (List.map_filter instructions_passed (calls_of (entrypoint X ctx) w))
        [Assistant_instructions]
   \<and> prefix (List.map_filter greeting_passed (calls_of (entrypoint X ctx) w))
        [''Hi u have Reached the suppoRt of bfsi how may i help u today .'']
   \<and> ((\<forall>t c. \<not> raises X t c) \<longrightarrow>
        List.map_filter instructions_passed (calls_of (entrypoint X ctx) w)
          = [Assistant_instructions]
        \<and> List.map_filter greeting_passed (calls_of (entrypoint X ctx) w)
          = [''Hi u have Reached the suppoRt of bfsi how may i help u today .'']
        \<and> fst (Assistant_init X w) = Inr \<lparr>instructions = Assistant_instructions\<rparr>)
   \<and> ((\<forall>t c. \<not> raises X t c) \<longrightarrow> (\<forall>t c. \<not> raises X' t c) \<longrightarrow>
        List.map_filter instructions_passed (calls_of (entrypoint X ctx) w)
          = List.map_filter instructions_passed (calls_of (entrypoint X' ctx') w')
        \<and> List.map_filter greeting_passed (calls_of (entrypoint X ctx) w)
          = List.map_filter greeting_passed (calls_of (entrypoint X' ctx') w')
        \<and> fst (Assistant_init X w) = fst (Assistant_init X' w'))"
proof -
  have 1: "s = s'" if "Agent_init s \<in> set (calls_of (entrypoint X ctx) w)"
    and "Agent_init s' \<in> set (calls_of (entrypoint X' ctx') w')"
  proof -
    from that have "s = Assistant_instructions" and "s' = Assistant_instructions"
      using calls_of_entrypoint_subset agent_init_in_script by blast+
    then show ?thesis by simp
  qed
  have 2: "g = g'" if "Generate_reply ses g \<in> set (calls_of (entrypoint X ctx) w)"
    and "Generate_reply ses' g' \<in> set (calls_of (entrypoint X' ctx') w')"
  proof -
    from that have "g = greeting" and "g' = greeting"
      using calls_of_entrypoint_subset generate_reply_in_script by blast+
    then show ?thesis by simp
  qed
  have 3: "instructions a = instructions a'" if "fst (Assistant_init X w) = Inr a"
    and "fst (Assistant_init X' w') = Inr a'"
    using that by (auto simp: Assistant_init_def framework_call_def split: if_splits)
  have 4: "prefix (List.map_filter instructions_passed (calls_of (entrypoint X ctx) w))
        [Assistant_instructions]"
    using map_filter_mono_prefix [OF calls_of_entrypoint, of instructions_passed X ctx w]
    by (simp add: script_instructions)
  have 5: "prefix (List.map_filter greeting_passed (calls_of (entrypoint X ctx) w))
        [''Hi u have Reached the suppoRt of bfsi how may i help u today .'']"
    using map_filter_mono_prefix [OF calls_of_entrypoint, of greeting_passed X ctx w]
    by (simp add: script_greeting greeting_def)
  have 6: "List.map_filter instructions_passed (calls_of (entrypoint Y c) v)
          = [Assistant_instructions]
        \<and> List.map_filter greeting_passed (calls_of (entrypoint Y c) v)
          = [''Hi u have Reached the suppoRt of bfsi how may i help u today .'']
        \<and> fst (Assistant_init Y v) = Inr \<lparr>instructions = Assistant_instructions\<rparr>"
    if "\<forall>t c. \<not> raises Y t c" for Y c v
    using that
    by (simp add: calls_of_entrypoint_no_raise script_instructions script_greeting greeting_def
        Assistant_init_def framework_call_def)
  from 1 2 3 4 5 6 [of X ctx w] 6 [of X' ctx' w'] show ?thesis by simp
qed

theorem instructions_and_greeting_constant_witness:
  "Agent_init Assistant_instructions
     \<in> set (calls_of (entrypoint (sample_externals Map.empty) \<lparr>room = Room ''support-line''\<rparr>)
              (sample_world sample_credentials))
   \<and> Agent_init Assistant_instructions
     \<in> set (calls_of (entrypoint (sample_externals [''.env'' \<mapsto> sample_credentials])
                \<lparr>room = Room ''sales-line''\<rparr>) (sample_world []))
   \<and> Generate_reply the_session ''Hi u have Reached the suppoRt of bfsi how may i help u today .''
     \<in> set (calls_of (entrypoint (sample_externals Map.empty) \<lparr>room = Room ''support-line''\<rparr>)
              (sample_world sample_credentials))
   \<and> Generate_reply the_session ''Hi u have Reached the suppoRt of bfsi how may i help u today .''
     \<in> set (calls_of (entrypoint (sample_externals [''.env'' \<mapsto> sample_credentials])
                \<lparr>room = Room ''sales-line''\<rparr>) (sample_world []))
   \<and> List.map_filter greeting_passed
        (calls_of (entrypoint (sample_externals Map.empty) \<lparr>room = Room ''support-line''\<rparr>)
           (sample_world sample_credentials))
       = [''Hi u have Reached the suppoRt of bfsi how may i help u today .'']
   \<and> List.map_filter greeting_passed
        (calls_of (entrypoint (sample_externals [''.env'' \<mapsto> sample_credentials])
           \<lparr>room = Room ''sales-line''\<rparr>) (sample_world []))
       = [''Hi u have Reached the suppoRt of bfsi how may i help u today .'']
   \<and> List.map_filter instructions_passed
        (calls_of (entrypoint (sample_externals Map.empty) \<lparr>room = Room ''support-line''\<rparr>)
           (sample_world sample_credentials))
       = List.map_filter instructions_passed
        (calls_of (entrypoint (sample_externals [''.env'' \<mapsto> sample_credentials])
           \<lparr>room = Room ''sales-line''\<rparr>) (sample_world []))
   \<and> fst (Assistant_init (sample_externals Map.empty) (sample_world sample_credentials))
       = Inr \<lparr>instructions = Assistant_instructions\<rparr>
   \<and> fst (Assistant_init (sample_externals [''.env'' \<mapsto> sample_credentials]) (sample_world []))
       = Inr \<lparr>instructions = Assistant_instructions\<rparr>"
proof -
  let ?X = "sample_externals Map.empty" and ?c = "\<lparr>room = Room ''support-line''\<rparr>"
    and ?w = "sample_world sample_credentials"
  let ?X' = "sample_externals [''.env'' \<mapsto> sample_credentials]"
    and ?c' = "\<lparr>room = Room ''sales-line''\<rparr>" and ?w' = "sample_world []"
  let ?g = "''Hi u have Reached the suppoRt of bfsi how may i help u today .''"
  have n: "\<forall>t c. \<not> raises ?X t c" and n': "\<forall>t c. \<not> raises ?X' t c"
    by simp_all
  have 1: "Agent_init Assistant_instructions \<in> set (calls_of (entrypoint ?X ?c) ?w)"
    by (simp add: calls_of_entrypoint_no_raise entrypoint_script_def)
  have 2: "Agent_init Assistant_instructions \<in> set (calls_of (entrypoint ?X' ?c') ?w')"
    by (simp add: calls_of_entrypoint_no_raise entrypoint_script_def)
  have 3: "Generate_reply the_session ?g \<in> set (calls_of (entrypoint ?X ?c) ?w)"
    by (simp add: calls_of_entrypoint_no_raise entrypoint_script_def greeting_def)
  have 4: "Generate_reply the_session ?g \<in> set (calls_of (entrypoint ?X' ?c') ?w')"
    by (simp add: calls_of_entrypoint_no_raise entrypoint_script_def greeting_def)
  note t = instructions_and_greeting_constant [where X = ?X and ctx = ?c and w = ?w
      and X' = ?X' and ctx' = ?c' and w' = ?w' and s = Assistant_instructions
      and s' = Assistant_instructions and ses = the_session and ses' = the_session
      and g = ?g and g' = ?g]
  note t' = instructions_and_greeting_constant [where X = ?X' and ctx = ?c' and w = ?w'
      and X' = ?X and ctx' = ?c and w' = ?w]
  from t n n' have a: "List.map_filter greeting_passed (calls_of (entrypoint ?X ?c) ?w) = [?g]"
    and b: "List.map_filter instructions_passed (calls_of (entrypoint ?X ?c) ?w)
       = List.map_filter instructions_passed (calls_of (entrypoint ?X' ?c') ?w')"
    and c: "fst (Assistant_init ?X ?w) = Inr \<lparr>instructions = Assistant_instructions\<rparr>"
    by blast+
  from t' n' have a': "List.map_filter greeting_passed (calls_of (entrypoint ?X' ?c') ?w') = [?g]"
    and c': "fst (Assistant_init ?X' ?w') = Inr \<lparr>instructions = Assistant_instructions\<rparr>"
    by blast+
  from 1 2 3 4 a a' b c c' show ?thesis by blast
qed

end
